theory Spec2Isabelle
  imports Complex_Main
begin

section \<open>Contrastive RL networks (contrastive/networks.py)\<close>

text \<open>
  The module builds, inside \<open>make_networks\<close>, five Haiku functions (\<open>_actor_fn\<close>,
  \<open>_critic_fn\<close>, \<open>_language_fn\<close>, \<open>_repr_fn\<close>, \<open>_goal_fn\<close>) and returns them, transformed,
  in a \<open>ContrastiveNetworks\<close> bundle; \<open>apply_policy_and_sample\<close> selects a sampler from
  such a bundle.

  Conventions of the embedding.
  \<^item> The functions of the module are modelled in exact arithmetic, array entries being
    real numbers: this settles what is computed from what, the shapes and the failures.
    There the one place where the source produces a non-number from exact data, the
    quotient of a zero row by its zero norm, is an outcome of its own (\<open>NotANumber\<close>).
  \<^item> float32 arithmetic, with its rounding, overflow and underflow, is modelled apart, for
    the primitives whose numerical values a statement is about; their names end in
    \<open>_f32\<close>.
  \<^item> A rank-2 array carries its number of columns, so that the shape of an array with no
    rows is still known.
  \<^item> Every exception is a value: a function that can raise returns \<open>error + 'a\<close>.
  \<^item> A Haiku function reads the parameter collection and threads the table of module
    names already used in the current \<open>transform\<close> frame.
  \<^item> The leading underscore of a source name is dropped and the suffix \<open>_hk\<close> marks the
    function before \<open>hk.transform\<close>; \<open>name_apply\<close> is \<open>hk.transform(_name).apply\<close>.
\<close>

subsection \<open>Arrays\<close>

datatype arr2 = Arr2 (ncols: nat) (rows: "real list list")

definition nrows :: "arr2 \<Rightarrow> nat" where
  "nrows x = length (rows x)"

text \<open>\<open>has_shape x n m\<close>: the representation \<open>x\<close> is an array of shape \<open>(n, m)\<close>.\<close>

definition has_shape :: "arr2 \<Rightarrow> nat \<Rightarrow> nat \<Rightarrow> bool" where
  "has_shape x n m = (length (rows x) = n \<and> ncols x = m \<and> list_all (\<lambda>r. length r = m) (rows x))"


type_synonym img4 = "real list list list list"

datatype tensor = T0 real | T1 "real list" | T2 arr2 | TN "nat list" "real list"

text \<open>Haiku's \<open>Params\<close>: module name, then parameter name.\<close>

type_synonym params = "string \<Rightarrow> (string \<Rightarrow> tensor option) option"

datatype error =
    ValueError string
  | ParamError
  | ShapeError
  | NotANumber

definition and_then :: "error + 'a \<Rightarrow> ('a \<Rightarrow> error + 'b) \<Rightarrow> error + 'b" where
  "and_then m f = (case m of Inl e \<Rightarrow> Inl e | Inr x \<Rightarrow> f x)"

subsection \<open>Python and jax.numpy primitives used by the module\<close>

text \<open>The stop (or start) index of the slice \<open>[:k]\<close> (or \<open>[k:]\<close>) on an axis of length \<open>n\<close>.\<close>

definition slice_index :: "int \<Rightarrow> nat \<Rightarrow> nat" where
  "slice_index k n = (if k < 0 then nat (max 0 (int n + k)) else min (nat k) n)"

text \<open>\<open>x[:, :k]\<close> and \<open>x[:, k:]\<close>.\<close>

definition slice_to :: "int \<Rightarrow> arr2 \<Rightarrow> arr2" where
  "slice_to k x = Arr2 (slice_index k (ncols x)) (map (take (slice_index k (ncols x))) (rows x))"

definition slice_from :: "int \<Rightarrow> arr2 \<Rightarrow> arr2" where
  "slice_from k x =
     Arr2 (ncols x - slice_index k (ncols x)) (map (drop (slice_index k (ncols x))) (rows x))"

text \<open>\<open>jnp.concatenate([x, y], axis=-1)\<close> on rank-2 arrays.\<close>

definition concatenate :: "arr2 \<Rightarrow> arr2 \<Rightarrow> error + arr2" where
  "concatenate x y =
     (if nrows x = nrows y then Inr (Arr2 (ncols x + ncols y) (map2 (@) (rows x) (rows y)))
      else Inl ShapeError)"

definition dot :: "real list \<Rightarrow> real list \<Rightarrow> real" where
  "dot r q = sum_list (map2 (*) r q)"

definition col :: "arr2 \<Rightarrow> nat \<Rightarrow> real list" where
  "col w j = map (\<lambda>r. r ! j) (rows w)"

text \<open>\<open>jnp.dot(x, w)\<close> for \<open>x\<close> of shape \<open>(n, k)\<close> and \<open>w\<close> of shape \<open>(k, m)\<close>.\<close>

definition matmul :: "arr2 \<Rightarrow> arr2 \<Rightarrow> arr2" where
  "matmul x w = Arr2 (ncols w) (map (\<lambda>r. map (\<lambda>j. dot r (col w j)) [0..<ncols w]) (rows x))"

definition add_bias :: "arr2 \<Rightarrow> real list \<Rightarrow> arr2" where
  "add_bias x b = Arr2 (ncols x) (map (\<lambda>r. map2 (+) r b) (rows x))"

text \<open>\<open>jax.nn.relu\<close>, elementwise.\<close>

definition relu :: "arr2 \<Rightarrow> arr2" where
  "relu x = Arr2 (ncols x) (map (map (max 0)) (rows x))"

text \<open>\<open>jnp.linalg.norm(x, axis=1, keepdims=True)\<close>, one row.\<close>

definition l2_norm :: "real list \<Rightarrow> real" where
  "l2_norm r = sqrt (sum_list (map (\<lambda>v. v * v) r))"

text \<open>
  \<open>x / jnp.linalg.norm(x, axis=1, keepdims=True)\<close>. No exception is raised by the source
  for a row of zeros: its entries become \<open>0 / 0\<close>, not a number. The model gives that
  outcome a name instead of continuing with an invented value, and stops there: what the
  source computes or raises afterwards on such an array is not followed. A row without
  entries has nothing to divide.
\<close>

definition normalize_rows :: "arr2 \<Rightarrow> error + arr2" where
  "normalize_rows x =
     (if list_ex (\<lambda>r. r \<noteq> [] \<and> l2_norm r = 0) (rows x) then Inl NotANumber
      else Inr (Arr2 (ncols x) (map (\<lambda>r. map (\<lambda>v. v / l2_norm r) r) (rows x))))"

text \<open>\<open>x / s\<close> and \<open>c * x\<close> for a scalar.\<close>

definition div_scalar :: "arr2 \<Rightarrow> real \<Rightarrow> arr2" where
  "div_scalar x s = Arr2 (ncols x) (map (map (\<lambda>v. v / s)) (rows x))"


text \<open>
  \<open>jnp.reshape(x, (-1, 64, 64, 3))\<close>: the entries in row-major order, cut into pixels of 3,
  lines of 64 pixels and images of 64 lines. It fails when the number of entries is not a
  multiple of \<open>64 * 64 * 3\<close>.
\<close>

function chunks :: "nat \<Rightarrow> 'a list \<Rightarrow> 'a list list" where
  "chunks n xs = (if n = 0 \<or> xs = [] then [] else take n xs # chunks n (drop n xs))"
  by pat_completeness auto
termination
  by (relation "measure (\<lambda>(n, xs). length xs)") auto

declare chunks.simps [simp del]

definition reshape_images :: "arr2 \<Rightarrow> error + img4" where
  "reshape_images x =
     (if (nrows x * ncols x) mod (64 * 64 * 3) = 0
      then Inr (chunks 64 (chunks 64 (chunks 3 (concat (rows x)))))
      else Inl ShapeError)"

definition div_images :: "img4 \<Rightarrow> real \<Rightarrow> img4" where
  "div_images t s = map (map (map (map (\<lambda>v. v / s)))) t"

text \<open>\<open>jnp.concatenate([s, g], axis=-1)\<close> on rank-4 arrays.\<close>

definition concatenate_images :: "img4 \<Rightarrow> img4 \<Rightarrow> error + img4" where
  "concatenate_images s g =
     (if length s = length g then Inr (map2 (map2 (map2 (@))) s g) else Inl ShapeError)"

subsection \<open>Haiku\<close>

text \<open>
  \<open>hk.get_parameter\<close> under \<open>apply\<close>: the stored array, an error when it is absent. The
  caller compares its shape with the one it asked for.
\<close>

definition get_parameter :: "params \<Rightarrow> string \<Rightarrow> string \<Rightarrow> error + tensor" where
  "get_parameter P m n =
     (case P m of None \<Rightarrow> Inl ParamError
      | Some d \<Rightarrow> (case d n of None \<Rightarrow> Inl ParamError | Some t \<Rightarrow> Inr t))"

text \<open>
  Module names: a top-level module asks for a name; the first request gets the name
  itself, the next ones \<open>name_1\<close>, \<open>name_2\<close>, and so on, within one \<open>transform\<close> frame.
\<close>

type_synonym names = "string \<Rightarrow> nat"

definition no_names :: names where
  "no_names = (\<lambda>_. 0)"

function show_nat :: "nat \<Rightarrow> string" where
  "show_nat n =
     (if n < 10 then [''0123456789'' ! n]
      else show_nat (n div 10) @ [''0123456789'' ! (n mod 10)])"
  by pat_completeness auto
termination
  by (relation "measure id") auto

declare show_nat.simps [simp del]

definition unique_name :: "string \<Rightarrow> names \<Rightarrow> string \<times> names" where
  "unique_name name s =
     (if s name = 0 then name else name @ ''_'' @ show_nat (s name), s(name := Suc (s name)))"

text \<open>\<open>hk.Linear(output_size, name)\<close> applied to \<open>x\<close>; \<open>name\<close> is the full module name.\<close>

definition linear :: "nat \<Rightarrow> string \<Rightarrow> params \<Rightarrow> arr2 \<Rightarrow> error + arr2" where
  "linear output_size name P x =
     and_then (get_parameter P name ''w'') (\<lambda>tw.
       case tw of
         T2 w \<Rightarrow>
           if has_shape w (ncols x) output_size then
             and_then (get_parameter P name ''b'') (\<lambda>tb.
               case tb of
                 T1 b \<Rightarrow>
                   if length b = output_size then Inr (add_bias (matmul x w) b)
                   else Inl ParamError
               | _ \<Rightarrow> Inl ParamError)
           else Inl ParamError
       | _ \<Rightarrow> Inl ParamError)"

text \<open>
  \<open>hk.nets.MLP(output_sizes, activation=jax.nn.relu, activate_final, name)\<close>: layer \<open>i\<close> is
  the module \<open>name/~/linear_i\<close>; the activation follows every layer but the last, and
  the last one too when \<open>activate_final\<close> is set.
\<close>

fun mlp_layers :: "bool \<Rightarrow> string \<Rightarrow> params \<Rightarrow> nat \<Rightarrow> nat list \<Rightarrow> arr2 \<Rightarrow> error + arr2" where
  "mlp_layers af name P i [] x = Inr x"
| "mlp_layers af name P i (n # ns) x =
     and_then (linear n (name @ ''/~/linear_'' @ show_nat i) P x) (\<lambda>y.
       mlp_layers af name P (Suc i) ns (if ns \<noteq> [] \<or> af then relu y else y))"

definition mlp :: "nat list \<Rightarrow> bool \<Rightarrow> string \<Rightarrow> params \<Rightarrow> arr2 \<Rightarrow> error + arr2" where
  "mlp output_sizes activate_final name P x = mlp_layers activate_final name P 0 output_sizes x"

text \<open>\<open>hk.without_apply_rng(hk.transform(f)).apply\<close>: \<open>f\<close> run in a fresh frame.\<close>

definition hk_apply :: "(params \<Rightarrow> names \<Rightarrow> error + 'a \<times> names) \<Rightarrow> params \<Rightarrow> error + 'a" where
  "hk_apply f P = and_then (f P no_names) (\<lambda>(y, s). Inr y)"

subsection \<open>Library modules taken as given\<close>

text \<open>
  The action distribution returned by the policy, by the three methods the module calls
  on it.
\<close>

type_synonym prng_key = nat

record dist =
  d_sample :: "prng_key \<Rightarrow> arr2"
  d_mode :: arr2
  d_log_prob :: "arr2 \<Rightarrow> real list"

text \<open>
  \<open>networks_lib.AtariTorso\<close> (a convolutional stack) and
  \<open>networks_lib.NormalTanhDistribution\<close> are not part of this module. Each is a function
  of the module's full name, the parameters and the input.
\<close>

record lib =
  atari_torso :: "string \<Rightarrow> params \<Rightarrow> img4 \<Rightarrow> error + arr2"
  normal_tanh_distribution :: "nat \<Rightarrow> real \<Rightarrow> string \<Rightarrow> params \<Rightarrow> arr2 \<Rightarrow> error + dist"

subsection \<open>The bundle and \<open>apply_policy_and_sample\<close>\<close>

text \<open>
  What the critic returns: a matrix of shape \<open>(N, N)\<close>, or with \<open>twin_q\<close> an array of shape
  \<open>(N, N, 2)\<close>.
\<close>

datatype critic_out = Single arr2 | Twin "real list list list"

type_synonym sample_fn = "dist \<Rightarrow> prng_key \<Rightarrow> arr2"

record contrastive_networks =
  policy_network :: "params \<Rightarrow> arr2 \<Rightarrow> error + dist"
  q_network :: "params \<Rightarrow> arr2 \<Rightarrow> arr2 \<Rightarrow> error + critic_out"
  l_network :: "params \<Rightarrow> arr2 \<Rightarrow> arr2 \<Rightarrow> error + arr2 \<times> arr2 \<times> arr2"
  log_prob :: "dist \<Rightarrow> arr2 \<Rightarrow> real list"
  goal_fn :: "params \<Rightarrow> arr2 \<Rightarrow> error + arr2"
  repr_fn :: "params \<Rightarrow> arr2 \<Rightarrow> arr2 \<Rightarrow> (arr2 \<times> arr2) option
                \<Rightarrow> error + arr2 \<times> arr2 \<times> (arr2 \<times> arr2)"
  sample :: sample_fn
  sample_eval :: "sample_fn option"

definition apply_policy_and_sample ::
  "contrastive_networks \<Rightarrow> bool \<Rightarrow> error + (params \<Rightarrow> prng_key \<Rightarrow> arr2 \<Rightarrow> error + arr2)" where
  "apply_policy_and_sample networks eval_mode =
     (let sample_fn = (if \<not> eval_mode then Some (sample networks) else sample_eval networks)
      in case sample_fn of
           None \<Rightarrow> Inl (ValueError ''sample function is not provided'')
         | Some f \<Rightarrow>
             Inr (\<lambda>params key obs.
               and_then (policy_network networks params obs) (\<lambda>d. Inr (f d key))))"

subsection \<open>\<open>make_networks\<close>\<close>

record config =
  action_shape :: "nat list"
  obs_dim :: int
  repr_dim :: nat
  repr_norm :: bool
  repr_norm_temp :: bool
  hidden_layer_sizes :: "nat list"
  actor_min_std :: real
  twin_q :: bool
  use_image_obs :: bool

definition num_dimensions :: "config \<Rightarrow> nat" where
  "num_dimensions c = prod_list (action_shape c)"

definition unflatten_obs :: "config \<Rightarrow> arr2 \<Rightarrow> error + img4 \<times> img4" where
  "unflatten_obs c obs =
     and_then (reshape_images (slice_to (obs_dim c) obs)) (\<lambda>s.
       let state = div_images s 255 in
       and_then (reshape_images (slice_from (obs_dim c) obs)) (\<lambda>g.
         let goal = div_images g 255 in
         Inr (state, goal)))"

definition goal_fn_hk :: "config \<Rightarrow> arr2 \<Rightarrow> params \<Rightarrow> names \<Rightarrow> error + arr2 \<times> names" where
  "goal_fn_hk c goal P s =
     (let (g_encoder, s') = unique_name ''g_encoder'' s in
      and_then (mlp (hidden_layer_sizes c @ [repr_dim c]) False g_encoder P goal) (\<lambda>g_repr.
        Inr (g_repr, s')))"

definition repr_fn_hk ::
  "lib \<Rightarrow> config \<Rightarrow> arr2 \<Rightarrow> arr2 \<Rightarrow> (arr2 \<times> arr2) option \<Rightarrow> params \<Rightarrow> names
     \<Rightarrow> error + (arr2 \<times> arr2 \<times> (arr2 \<times> arr2)) \<times> names" where
  "repr_fn_hk L c obs action hidden P s0 =
     and_then
       (case hidden of
          None \<Rightarrow>
            if use_image_obs c then
              and_then (unflatten_obs c obs) (\<lambda>(state, goal).
                let (img_encoder, s1) = unique_name ''atari_torso'' s0 in
                and_then (atari_torso L img_encoder P state) (\<lambda>state.
                  and_then (atari_torso L img_encoder P goal) (\<lambda>goal.
                    Inr ((state, goal), s1))))
            else Inr ((slice_to (obs_dim c) obs, slice_from (obs_dim c) obs), s0)
        | Some h \<Rightarrow> Inr (h, s0))
       (\<lambda>((state, goal), s1).
          let (sa_encoder, s2) = unique_name ''sa_encoder'' s1 in
          and_then (concatenate state action) (\<lambda>sa_in.
            and_then (mlp (hidden_layer_sizes c @ [repr_dim c]) False sa_encoder P sa_in)
              (\<lambda>sa_repr.
                and_then (goal_fn_hk c goal P s2) (\<lambda>(g_repr, s3).
                  if repr_norm c then
                    and_then (normalize_rows sa_repr) (\<lambda>sa_repr.
                      and_then (normalize_rows g_repr) (\<lambda>g_repr.
                        if repr_norm_temp c then
                          and_then (get_parameter P ''~'' ''repr_log_scale'') (\<lambda>t.
                            case t of
                              T0 log_scale \<Rightarrow>
                                Inr ((div_scalar sa_repr (exp log_scale), g_repr, (state, goal)),
                                     s3)
                            | _ \<Rightarrow> Inl ParamError)
                        else Inr ((sa_repr, g_repr, (state, goal)), s3)))
                  else Inr ((sa_repr, g_repr, (state, goal)), s3)))))"

text \<open>
  \<open>jax.numpy.einsum('ik,jk->ij', sa_repr, g_repr)\<close>. The two arrays must agree on the axis
  \<open>k\<close>, except that einsum broadcasts an axis of length 1 against the other operand's.
\<close>

definition broadcast_row :: "nat \<Rightarrow> real list \<Rightarrow> real list" where
  "broadcast_row k r = (case r of [v] \<Rightarrow> replicate k v | _ \<Rightarrow> r)"

definition combine_repr :: "arr2 \<Rightarrow> arr2 \<Rightarrow> error + arr2" where
  "combine_repr sa_repr g_repr =
     (if ncols sa_repr = ncols g_repr \<or> ncols sa_repr = 1 \<or> ncols g_repr = 1 then
        (let k = (if ncols sa_repr = 1 then ncols g_repr else ncols sa_repr) in
         Inr (Arr2 (nrows g_repr)
                (map (\<lambda>a. map (\<lambda>g. dot (broadcast_row k a) (broadcast_row k g)) (rows g_repr))
                   (rows sa_repr))))
      else Inl ShapeError)"

text \<open>\<open>jnp.stack([x, y], axis=-1)\<close> on two rank-2 arrays of one shape.\<close>

definition stack_last :: "arr2 \<Rightarrow> arr2 \<Rightarrow> error + real list list list" where
  "stack_last x y =
     (if nrows x = nrows y \<and> ncols x = ncols y
      then Inr (map2 (map2 (\<lambda>u v. [u, v])) (rows x) (rows y))
      else Inl ShapeError)"

definition critic_fn_hk ::
  "lib \<Rightarrow> config \<Rightarrow> arr2 \<Rightarrow> arr2 \<Rightarrow> params \<Rightarrow> names
     \<Rightarrow> error + critic_out \<times> names" where
  "critic_fn_hk L c obs action P s0 =
     and_then (repr_fn_hk L c obs action None P s0) (\<lambda>((sa_repr, g_repr, hidden), s1).
       and_then (combine_repr sa_repr g_repr) (\<lambda>outer.
         if twin_q c then
           and_then (repr_fn_hk L c obs action (Some hidden) P s1) (\<lambda>((sa_repr2, g_repr2, _), s2).
             and_then (combine_repr sa_repr2 g_repr2) (\<lambda>outer2.
               and_then (stack_last outer outer2) (\<lambda>stacked.
                 Inr (Twin stacked, s2))))
         else Inr (Single outer, s1)))"

definition actor_fn_hk ::
  "lib \<Rightarrow> config \<Rightarrow> arr2 \<Rightarrow> params \<Rightarrow> names \<Rightarrow> error + dist \<times> names" where
  "actor_fn_hk L c obs P s0 =
     and_then
       (if use_image_obs c then
          and_then (unflatten_obs c obs) (\<lambda>(state, goal).
            and_then (concatenate_images state goal) (\<lambda>obs.
              let (torso, s1) = unique_name ''atari_torso'' s0 in
              and_then (atari_torso L torso P obs) (\<lambda>obs. Inr (obs, s1))))
        else Inr (obs, s0))
       (\<lambda>(obs, s1).
          let (mlp_name, s2) = unique_name ''mlp'' s1;
              (dist_name, s3) = unique_name ''normal_tanh_distribution'' s2;
              (seq_name, s4) = unique_name ''sequential'' s3
          in and_then (mlp (hidden_layer_sizes c) True mlp_name P obs) (\<lambda>h.
               and_then
                 (normal_tanh_distribution L (num_dimensions c) (actor_min_std c) dist_name P h)
                 (\<lambda>d. Inr (d, s4))))"

definition language_fn_hk ::
  "config \<Rightarrow> arr2 \<Rightarrow> arr2 \<Rightarrow> params \<Rightarrow> names \<Rightarrow> error + (arr2 \<times> arr2 \<times> arr2) \<times> names" where
  "language_fn_hk c goal language P s0 =
     and_then (goal_fn_hk c goal P s0) (\<lambda>(g_repr, s1).
       let (l_encoder, s2) = unique_name ''l_encoder'' s1 in
       and_then (mlp (hidden_layer_sizes c @ [repr_dim c]) False l_encoder P language) (\<lambda>l_repr.
         and_then (combine_repr g_repr l_repr) (\<lambda>outer.
           Inr ((g_repr, l_repr, outer), s2))))"

definition policy_apply :: "lib \<Rightarrow> config \<Rightarrow> params \<Rightarrow> arr2 \<Rightarrow> error + dist" where
  "policy_apply L c P obs = hk_apply (actor_fn_hk L c obs) P"

definition critic_apply ::
  "lib \<Rightarrow> config \<Rightarrow> params \<Rightarrow> arr2 \<Rightarrow> arr2 \<Rightarrow> error + critic_out" where
  "critic_apply L c P obs action = hk_apply (critic_fn_hk L c obs action) P"

definition language_apply ::
  "config \<Rightarrow> params \<Rightarrow> arr2 \<Rightarrow> arr2 \<Rightarrow> error + arr2 \<times> arr2 \<times> arr2" where
  "language_apply c P goal language = hk_apply (language_fn_hk c goal language) P"

definition repr_fn_apply ::
  "lib \<Rightarrow> config \<Rightarrow> params \<Rightarrow> arr2 \<Rightarrow> arr2 \<Rightarrow> (arr2 \<times> arr2) option
     \<Rightarrow> error + arr2 \<times> arr2 \<times> (arr2 \<times> arr2)" where
  "repr_fn_apply L c P obs action hidden = hk_apply (repr_fn_hk L c obs action hidden) P"

definition goal_fn_apply :: "config \<Rightarrow> params \<Rightarrow> arr2 \<Rightarrow> error + arr2" where
  "goal_fn_apply c P goal = hk_apply (goal_fn_hk c goal) P"

text \<open>
  The bundle. The \<open>init\<close> halves of the three \<open>FeedForwardNetwork\<close>s draw random initial
  parameters for dummy inputs and are left out: each network is its \<open>apply\<close>.
\<close>

definition make_networks :: "lib \<Rightarrow> config \<Rightarrow> contrastive_networks" where
  "make_networks L c =
     \<lparr> policy_network = policy_apply L c,
       q_network = critic_apply L c,
       l_network = language_apply c,
       log_prob = (\<lambda>params actions. d_log_prob params actions),
       goal_fn = goal_fn_apply c,
       repr_fn = repr_fn_apply L c,
       sample = (\<lambda>params key. d_sample params key),
       sample_eval = Some (\<lambda>params key. d_mode params) \<rparr>"

subsection \<open>A small instance\<close>

text \<open>
  One observation \<open>[1, 1]\<close> with \<open>obs_dim = 1\<close>, one action \<open>[1]\<close>, encoders without hidden
  layers and a one-dimensional representation. The second head of the twin critic owns
  the modules \<open>sa_encoder_1\<close> and \<open>g_encoder_1\<close>.
\<close>

definition layer :: "real list list \<Rightarrow> real list \<Rightarrow> (string \<Rightarrow> tensor option)" where
  "layer w b = map_of [(''w'', T2 (Arr2 (length b) w)), (''b'', T1 b)]"

definition ex_params :: "real \<Rightarrow> params" where
  "ex_params log_scale = map_of
     [(''sa_encoder/~/linear_0'', layer [[1], [1]] [0]),
      (''g_encoder/~/linear_0'', layer [[2]] [0]),
      (''sa_encoder_1/~/linear_0'', layer [[3], [0]] [1]),
      (''g_encoder_1/~/linear_0'', layer [[1]] [1]),
      (''l_encoder/~/linear_0'', layer [[1]] [0]),
      (''~'', map_of [(''repr_log_scale'', T0 log_scale)])]"

definition ex_lib :: lib where
  "ex_lib =
     \<lparr> atari_torso = (\<lambda>name P x. Inr (Arr2 1 (map (\<lambda>i. [1]) x))),
       normal_tanh_distribution =
         (\<lambda>n s name P h. Inr \<lparr> d_sample = (\<lambda>key. h), d_mode = h, d_log_prob = (\<lambda>a. []) \<rparr>) \<rparr>"

definition ex_config :: "bool \<Rightarrow> bool \<Rightarrow> bool \<Rightarrow> config" where
  "ex_config normed temp twin =
     \<lparr> action_shape = [1], obs_dim = 1, repr_dim = 1, repr_norm = normed,
       repr_norm_temp = temp, hidden_layer_sizes = [], actor_min_std = 1 / 1000000,
       twin_q = twin, use_image_obs = False \<rparr>"

definition ex_obs :: arr2 where
  "ex_obs = Arr2 2 [[1, 1]]"

definition ex_action :: arr2 where
  "ex_action = Arr2 1 [[1]]"



subsection \<open>Vocabulary of the statements\<close>




text \<open>
  The three stages of \<open>_repr_fn\<close>, named for the proofs: the intermediate pair it works on
  (\<open>hidden\<close>, or computed from the observation), the two encoders given their module
  names, and the normalisation and temperature scaling. \<open>head_names\<close> is the pair of
  encoder names one call of \<open>_repr_fn\<close> is given, and the table of names after it.
\<close>

definition repr_inputs ::
  "lib \<Rightarrow> config \<Rightarrow> arr2 \<Rightarrow> (arr2 \<times> arr2) option \<Rightarrow> params \<Rightarrow> names
     \<Rightarrow> error + (arr2 \<times> arr2) \<times> names" where
  "repr_inputs L c obs hidden P s0 =
     (case hidden of
        None \<Rightarrow>
          if use_image_obs c then
            and_then (unflatten_obs c obs) (\<lambda>(state, goal).
              and_then (atari_torso L (fst (unique_name ''atari_torso'' s0)) P state) (\<lambda>state.
                and_then (atari_torso L (fst (unique_name ''atari_torso'' s0)) P goal) (\<lambda>goal.
                  Inr ((state, goal), snd (unique_name ''atari_torso'' s0)))))
          else Inr ((slice_to (obs_dim c) obs, slice_from (obs_dim c) obs), s0)
      | Some h \<Rightarrow> Inr (h, s0))"

definition repr_encode ::
  "config \<Rightarrow> params \<Rightarrow> string \<Rightarrow> string \<Rightarrow> arr2 \<Rightarrow> arr2 \<Rightarrow> arr2 \<Rightarrow> error + arr2 \<times> arr2" where
  "repr_encode c P sa_encoder g_encoder state goal action =
     and_then (concatenate state action) (\<lambda>sa_in.
       and_then (mlp (hidden_layer_sizes c @ [repr_dim c]) False sa_encoder P sa_in) (\<lambda>sa_repr.
         and_then (mlp (hidden_layer_sizes c @ [repr_dim c]) False g_encoder P goal) (\<lambda>g_repr.
           Inr (sa_repr, g_repr))))"

definition repr_post :: "config \<Rightarrow> params \<Rightarrow> arr2 \<times> arr2 \<Rightarrow> error + arr2 \<times> arr2" where
  "repr_post c P e =
     (if repr_norm c then
        and_then (normalize_rows (fst e)) (\<lambda>sa_repr.
          and_then (normalize_rows (snd e)) (\<lambda>g_repr.
            if repr_norm_temp c then
              and_then (get_parameter P ''~'' ''repr_log_scale'') (\<lambda>t.
                case t of
                  T0 log_scale \<Rightarrow> Inr (div_scalar sa_repr (exp log_scale), g_repr)
                | _ \<Rightarrow> Inl ParamError)
            else Inr (sa_repr, g_repr)))
      else Inr e)"

definition head_names :: "names \<Rightarrow> string \<times> string \<times> names" where
  "head_names s =
     (fst (unique_name ''sa_encoder'' s),
      fst (unique_name ''g_encoder'' (snd (unique_name ''sa_encoder'' s))),
      snd (unique_name ''g_encoder'' (snd (unique_name ''sa_encoder'' s))))"


text \<open>
  A batch of two observations \<open>[1, 3]\<close> and \<open>[2, 5]\<close> (states 1 and 2, goals 3 and 5) with
  the actions \<open>[1]\<close> and \<open>[2]\<close>. Then what the statements ask of the parameters: every
  layer of an encoder is stored under its module name with the shape its input calls for.
\<close>

definition ex_obs2 :: arr2 where
  "ex_obs2 = Arr2 2 [[1, 3], [2, 5]]"

definition ex_action2 :: arr2 where
  "ex_action2 = Arr2 1 [[1], [2]]"




subsection \<open>float32 arithmetic\<close>

text \<open>
  jax.numpy computes in float32 unless told otherwise: IEEE 754 binary32, with 24
  significant bits, exponents from \<open>-126\<close> to \<open>127\<close>, rounding to nearest with ties to even,
  and the values \<open>inf\<close>, \<open>-inf\<close> and \<open>nan\<close>. A finite float32 is represented by the real
  number it denotes; the sign of zero is not tracked.
\<close>

datatype float32 = Finite real | PosInf | NegInf | NaN

definition pow2 :: "int \<Rightarrow> real" where
  "pow2 k = (if 0 \<le> k then 2 ^ nat k else 1 / 2 ^ nat (- k))"

text \<open>Rounding to the nearest integer, ties to the even one.\<close>

definition round_half_even :: "real \<Rightarrow> int" where
  "round_half_even q =
     (let f = \<lfloor>q\<rfloor> in
      if q - of_int f < 1 / 2 then f
      else if 1 / 2 < q - of_int f then f + 1
      else if even f then f else f + 1)"

text \<open>
  The exponent of the binade of \<open>x\<close>: \<open>2 ^ e \<le> \<bar>x\<bar> < 2 ^ (e + 1)\<close>, and \<open>-126\<close> in the
  subnormal range. The float32 values of that binade are the multiples of \<open>2 ^ (e - 23)\<close>.
\<close>

definition binade :: "real \<Rightarrow> int" where
  "binade x = max \<lfloor>log 2 \<bar>x\<bar>\<rfloor> (- 126)"

text \<open>
  The float32 nearest to a real number: the nearest multiple of the binade's spacing,
  and an infinity when that is \<open>2 ^ 128\<close> or more in magnitude.
\<close>

definition round32 :: "real \<Rightarrow> float32" where
  "round32 x =
     (if x = 0 then Finite 0
      else
        let q = pow2 (binade x - 23);
            y = of_int (round_half_even (x / q)) * q
        in if 2 ^ 128 \<le> \<bar>y\<bar> then (if 0 < x then PosInf else NegInf) else Finite y)"



definition f32_div :: "float32 \<Rightarrow> float32 \<Rightarrow> float32" where
  "f32_div a b =
     (case (a, b) of
        (NaN, _) \<Rightarrow> NaN
      | (_, NaN) \<Rightarrow> NaN
      | (Finite x, Finite y) \<Rightarrow>
          (if y = 0 then (if x = 0 then NaN else if 0 < x then PosInf else NegInf)
           else round32 (x / y))
      | (Finite x, _) \<Rightarrow> Finite 0
      | (PosInf, Finite y) \<Rightarrow> (if 0 \<le> y then PosInf else NegInf)
      | (NegInf, Finite y) \<Rightarrow> (if 0 \<le> y then NegInf else PosInf)
      | (_, _) \<Rightarrow> NaN)"

definition f32_sqrt :: "float32 \<Rightarrow> float32" where
  "f32_sqrt a =
     (case a of
        Finite x \<Rightarrow> (if 0 \<le> x then round32 (sqrt x) else NaN)
      | PosInf \<Rightarrow> PosInf
      | _ \<Rightarrow> NaN)"










section \<open>Auxiliary facts\<close>

subsection \<open>Cutting a list into chunks\<close>








lemma chunks_map: "chunks n (map f xs) = map (map f) (chunks n xs)"
proof (induction n xs rule: chunks.induct)
  case (1 n xs)
  show ?case
  proof (cases "n = 0 \<or> xs = []")
    case True
    then show ?thesis by (auto simp: chunks.simps[of n "[]"] chunks.simps[of 0])
  next
    case False
    then show ?thesis
      using "1.IH" by (subst chunks.simps, subst (2) chunks.simps) (simp add: take_map drop_map)
  qed
qed







lemma div_images_chunks:
  "div_images (chunks 64 (chunks 64 (chunks 3 xs))) s
     = chunks 64 (chunks 64 (chunks 3 (map (\<lambda>v. v / s) xs)))"
  by (simp add: div_images_def chunks_map)


subsection \<open>Slices and reshaping\<close>




lemma reshape_images_Inl:
  "reshape_images x = Inl e \<longleftrightarrow> e = ShapeError \<and> \<not> 12288 dvd nrows x * ncols x"
  by (auto simp: reshape_images_def mod_eq_0_iff_dvd)







subsection \<open>Inner products\<close>






subsection \<open>The representation function in stages\<close>

lemma and_then_simps [simp]:
  "and_then (Inl e) f = Inl e" "and_then (Inr x) f = f x"
  by (simp_all add: and_then_def)

lemma and_then_assoc: "and_then (and_then m f) g = and_then m (\<lambda>x. and_then (f x) g)"
  by (cases m) simp_all

lemma and_then_cong:
  "m = m' \<Longrightarrow> (\<And>x. m' = Inr x \<Longrightarrow> f x = f' x) \<Longrightarrow> and_then m f = and_then m' f'"
  by (cases m') simp_all

lemma repr_fn_hk_decomp:
  "repr_fn_hk L c obs action hidden P s0 =
     and_then (repr_inputs L c obs hidden P s0) (\<lambda>(h, s1).
       and_then (repr_encode c P (fst (head_names s1)) (fst (snd (head_names s1)))
                   (fst h) (snd h) action) (\<lambda>e.
         and_then (repr_post c P e) (\<lambda>(sa_repr, g_repr).
           Inr ((sa_repr, g_repr, h), snd (snd (head_names s1))))))"
proof -
  have post: "(if repr_norm c then
                    and_then (normalize_rows sa) (\<lambda>sa_repr.
                      and_then (normalize_rows g) (\<lambda>g_repr.
                        if repr_norm_temp c then
                          and_then (get_parameter P ''~'' ''repr_log_scale'') (\<lambda>t.
                            case t of
                              T0 log_scale \<Rightarrow>
                                Inr ((div_scalar sa_repr (exp log_scale), g_repr, h), s3)
                            | _ \<Rightarrow> Inl ParamError)
                        else Inr ((sa_repr, g_repr, h), s3)))
                  else Inr ((sa, g, h), s3))
       = and_then (repr_post c P (sa, g)) (\<lambda>(sa_repr, g_repr). Inr ((sa_repr, g_repr, h), s3))"
    for sa g h and s3 :: names
    by (auto simp: repr_post_def and_then_def split: sum.splits tensor.splits)
  have inp: "(case hidden of
          None \<Rightarrow>
            if use_image_obs c then
              and_then (unflatten_obs c obs) (\<lambda>(state, goal).
                let (img_encoder, s1) = unique_name ''atari_torso'' s0 in
                and_then (atari_torso L img_encoder P state) (\<lambda>state.
                  and_then (atari_torso L img_encoder P goal) (\<lambda>goal.
                    Inr ((state, goal), s1))))
            else Inr ((slice_to (obs_dim c) obs, slice_from (obs_dim c) obs), s0)
        | Some h \<Rightarrow> Inr (h, s0)) = repr_inputs L c obs hidden P s0"
    by (simp add: repr_inputs_def split_beta Let_def split: option.splits)
  show ?thesis
    unfolding repr_fn_hk_def inp
    by (rule and_then_cong[OF refl])
       (auto simp: post repr_encode_def goal_fn_hk_def head_names_def split_beta Let_def
          and_then_assoc intro!: and_then_cong)
qed

lemma repr_inputs_names:
  assumes "repr_inputs L c obs hidden P s0 = Inr (h, s1)"
  shows "s1 ''sa_encoder'' = s0 ''sa_encoder''" "s1 ''g_encoder'' = s0 ''g_encoder''"
  using assms
  by (auto simp: repr_inputs_def unique_name_def and_then_def
      split: option.splits if_splits sum.splits prod.splits)

lemma repr_inputs_Some: "repr_inputs L c obs (Some h) P s0 = Inr (h, s0)"
  by (simp add: repr_inputs_def)

lemma head_names_fresh:
  assumes "s ''sa_encoder'' = 0" "s ''g_encoder'' = 0"
  shows "fst (head_names s) = ''sa_encoder''" "fst (snd (head_names s)) = ''g_encoder''"
  using assms by (simp_all add: head_names_def unique_name_def)

lemma show_nat_1: "show_nat (Suc 0) = ''1''"
  by (simp add: show_nat.simps)

lemma head_names_second:
  assumes "s ''sa_encoder'' = 0" "s ''g_encoder'' = 0"
  shows "fst (head_names (snd (snd (head_names s)))) = ''sa_encoder_1''"
    "fst (snd (head_names (snd (snd (head_names s))))) = ''g_encoder_1''"
  using assms by (simp_all add: head_names_def unique_name_def show_nat_1)

lemma repr_fn_apply_decomp:
  "repr_fn_apply L c P obs action hidden =
     and_then (repr_inputs L c obs hidden P no_names) (\<lambda>(h, s1).
       and_then (repr_encode c P ''sa_encoder'' ''g_encoder'' (fst h) (snd h) action) (\<lambda>e.
         and_then (repr_post c P e) (\<lambda>(sa_repr, g_repr). Inr (sa_repr, g_repr, h))))"
proof (cases "repr_inputs L c obs hidden P no_names")
  case (Inl e)
  then show ?thesis by (simp add: repr_fn_apply_def hk_apply_def repr_fn_hk_decomp)
next
  case (Inr p)
  obtain h s1 where p: "p = (h, s1)" by (cases p)
  have n: "s1 ''sa_encoder'' = 0" "s1 ''g_encoder'' = 0"
    using repr_inputs_names[OF Inr[unfolded p]] by (simp_all add: no_names_def)
  show ?thesis
    by (simp add: repr_fn_apply_def hk_apply_def repr_fn_hk_decomp Inr p head_names_fresh[OF n]
        and_then_assoc case_prod_unfold)
qed

lemma language_apply_decomp:
  "language_apply c P goal language =
     and_then (mlp (hidden_layer_sizes c @ [repr_dim c]) False ''g_encoder'' P goal) (\<lambda>g_repr.
       and_then (mlp (hidden_layer_sizes c @ [repr_dim c]) False ''l_encoder'' P language) (\<lambda>l_repr.
         and_then (combine_repr g_repr l_repr) (\<lambda>outer. Inr (g_repr, l_repr, outer))))"
  by (simp add: language_apply_def hk_apply_def language_fn_hk_def goal_fn_hk_def
      unique_name_def no_names_def and_then_assoc split_beta Let_def)

lemma goal_fn_apply_decomp:
  "goal_fn_apply c P goal = mlp (hidden_layer_sizes c @ [repr_dim c]) False ''g_encoder'' P goal"
  by (cases "mlp (hidden_layer_sizes c @ [repr_dim c]) False ''g_encoder'' P goal")
     (simp_all add: goal_fn_apply_def hk_apply_def goal_fn_hk_def unique_name_def no_names_def)

lemmas ex_eval_defs =
  ex_config_def mlp_def linear_def get_parameter_def ex_params_def layer_def has_shape_def
  matmul_def add_bias_def col_def dot_def show_nat.simps ex_obs_def ex_action_def
  slice_to_def slice_from_def slice_index_def concatenate_def nrows_def

lemma ex_mlp_sa:
  "mlp (hidden_layer_sizes (ex_config n t tw) @ [repr_dim (ex_config n t tw)]) False
     ''sa_encoder'' (ex_params ls) (Arr2 2 [[1, 1]]) = Inr (Arr2 1 [[2]])"
  by (simp add: ex_eval_defs)

lemma ex_mlp_g:
  "mlp (hidden_layer_sizes (ex_config n t tw) @ [repr_dim (ex_config n t tw)]) False
     ''g_encoder'' (ex_params ls) (Arr2 1 [[1]]) = Inr (Arr2 1 [[2]])"
  by (simp add: ex_eval_defs)

lemma ex_mlp_sa1:
  "mlp (hidden_layer_sizes (ex_config n t tw) @ [repr_dim (ex_config n t tw)]) False
     ''sa_encoder_1'' (ex_params ls) (Arr2 2 [[1, 1]]) = Inr (Arr2 1 [[4]])"
  by (simp add: ex_eval_defs)

lemma ex_mlp_g1:
  "mlp (hidden_layer_sizes (ex_config n t tw) @ [repr_dim (ex_config n t tw)]) False
     ''g_encoder_1'' (ex_params ls) (Arr2 1 [[1]]) = Inr (Arr2 1 [[2]])"
  by (simp add: ex_eval_defs)

lemma ex_mlp_l:
  "mlp (hidden_layer_sizes (ex_config n t tw) @ [repr_dim (ex_config n t tw)]) False
     ''l_encoder'' (ex_params ls) (Arr2 1 [[3]]) = Inr (Arr2 1 [[3]])"
  by (simp add: ex_eval_defs)

lemma ex_inputs:
  "repr_inputs ex_lib (ex_config n t tw) ex_obs None P no_names
     = Inr ((Arr2 1 [[1]], Arr2 1 [[1]]), no_names)"
  by (simp add: repr_inputs_def ex_eval_defs)

lemma ex_concat: "concatenate (Arr2 1 [[1]]) ex_action = Inr (Arr2 2 [[1, 1]])"
  by (simp add: concatenate_def ex_action_def nrows_def)

lemma ex_encode:
  "repr_encode (ex_config n t tw) (ex_params ls) ''sa_encoder'' ''g_encoder''
     (Arr2 1 [[1]]) (Arr2 1 [[1]]) ex_action = Inr (Arr2 1 [[2]], Arr2 1 [[2]])"
  by (simp only: repr_encode_def ex_concat and_then_simps ex_mlp_sa ex_mlp_g)

lemma ex_encode_1:
  "repr_encode (ex_config n t tw) (ex_params ls) ''sa_encoder_1'' ''g_encoder_1''
     (Arr2 1 [[1]]) (Arr2 1 [[1]]) ex_action = Inr (Arr2 1 [[4]], Arr2 1 [[2]])"
  by (simp only: repr_encode_def ex_concat and_then_simps ex_mlp_sa1 ex_mlp_g1)

lemma l2_norm_single: "l2_norm [x] = \<bar>x\<bar>"
  by (simp add: l2_norm_def)

lemma ex_normalize: "normalize_rows (Arr2 1 [[2]]) = Inr (Arr2 1 [[1]])"
  by (simp add: normalize_rows_def l2_norm_single)

lemma ex_normalize_4: "normalize_rows (Arr2 1 [[4]]) = Inr (Arr2 1 [[1]])"
  by (simp add: normalize_rows_def l2_norm_single)

lemma ex_get_scale: "get_parameter (ex_params ls) ''~'' ''repr_log_scale'' = Inr (T0 ls)"
  by (simp add: get_parameter_def ex_params_def)

lemma ex_flags:
  "repr_norm (ex_config n t tw) = n" "repr_norm_temp (ex_config n t tw) = t"
  "twin_q (ex_config n t tw) = tw" "use_image_obs (ex_config n t tw) = False"
  by (simp_all add: ex_config_def)

lemma ex_post_raw: "repr_post (ex_config False t tw) P e = Inr e"
  by (simp add: repr_post_def ex_flags)

lemma ex_post_norm:
  "repr_post (ex_config True False tw) P (Arr2 1 [[2]], Arr2 1 [[2]])
     = Inr (Arr2 1 [[1]], Arr2 1 [[1]])"
  by (simp only: repr_post_def ex_flags if_True if_False fst_conv snd_conv ex_normalize
      and_then_simps)

lemma ex_post_temp:
  "repr_post (ex_config True True tw) (ex_params ls) (Arr2 1 [[2]], Arr2 1 [[2]])
     = Inr (Arr2 1 [[1 / exp ls]], Arr2 1 [[1]])"
  by (simp only: repr_post_def ex_flags if_True if_False fst_conv snd_conv ex_normalize
      and_then_simps ex_get_scale tensor.case)
     (simp add: div_scalar_def)

lemma ex_repr_raw:
  "repr_fn_apply ex_lib (ex_config False t tw) (ex_params ls) ex_obs ex_action None
     = Inr (Arr2 1 [[2]], Arr2 1 [[2]], (Arr2 1 [[1]], Arr2 1 [[1]]))"
  by (simp only: repr_fn_apply_decomp ex_inputs ex_encode ex_post_raw and_then_simps
      prod.case fst_conv snd_conv)

lemma ex_repr_norm:
  "repr_fn_apply ex_lib (ex_config True False tw) (ex_params ls) ex_obs ex_action None
     = Inr (Arr2 1 [[1]], Arr2 1 [[1]], (Arr2 1 [[1]], Arr2 1 [[1]]))"
  by (simp only: repr_fn_apply_decomp ex_inputs ex_encode ex_post_norm and_then_simps
      prod.case fst_conv snd_conv)

lemma ex_repr_temp:
  "repr_fn_apply ex_lib (ex_config True True tw) (ex_params ls) ex_obs ex_action None
     = Inr (Arr2 1 [[1 / exp ls]], Arr2 1 [[1]], (Arr2 1 [[1]], Arr2 1 [[1]]))"
  by (simp only: repr_fn_apply_decomp ex_inputs ex_encode ex_post_temp and_then_simps
      prod.case fst_conv snd_conv)

lemma ex_combine: "combine_repr (Arr2 1 [[a]]) (Arr2 1 [[b]]) = Inr (Arr2 1 [[a * b]])"
  by (simp add: combine_repr_def broadcast_row_def dot_def nrows_def)

lemma ex_language:
  "language_apply (ex_config n t tw) (ex_params ls) (Arr2 1 [[1]]) (Arr2 1 [[3]])
     = Inr (Arr2 1 [[2]], Arr2 1 [[3]], Arr2 1 [[2 * 3]])"
  by (simp only: language_apply_decomp ex_mlp_g ex_mlp_l and_then_simps ex_combine)

lemma repr_inputs_flags [simp]:
  "repr_inputs L (c\<lparr>repr_norm := b\<rparr>) = repr_inputs L c"
  "repr_inputs L (c\<lparr>repr_norm_temp := b\<rparr>) = repr_inputs L c"
  by (simp_all add: repr_inputs_def unflatten_obs_def fun_eq_iff split: option.splits)

lemma repr_encode_flags [simp]:
  "repr_encode (c\<lparr>repr_norm := b\<rparr>) = repr_encode c"
  "repr_encode (c\<lparr>repr_norm_temp := b\<rparr>) = repr_encode c"
  by (simp_all add: repr_encode_def fun_eq_iff)

lemma repr_post_raw: "repr_post (c\<lparr>repr_norm := False\<rparr>) P e = Inr e"
  by (simp add: repr_post_def)

lemma div_scalar_one: "div_scalar x 1 = x"
  by (simp add: div_scalar_def)

lemma repr_post_zero_scale:
  assumes "repr_norm_temp c" "get_parameter P ''~'' ''repr_log_scale'' = Inr (T0 0)"
  shows "repr_post c P e = repr_post (c\<lparr>repr_norm_temp := False\<rparr>) P e"
  using assms by (simp add: repr_post_def div_scalar_one cong: and_then_cong)

lemma repr_post_no_temp:
  "repr_post (c\<lparr>repr_norm_temp := False\<rparr>) P e =
     (if repr_norm c then
        and_then (normalize_rows (fst e)) (\<lambda>sa. and_then (normalize_rows (snd e)) (\<lambda>g. Inr (sa, g)))
      else Inr e)"
  by (simp add: repr_post_def)

lemma repr_fn_apply_Inr:
  assumes "repr_fn_apply L c P obs action hidden = Inr (sa, g, h)"
  shows "\<exists>s1 e. repr_inputs L c obs hidden P no_names = Inr (h, s1)
           \<and> repr_encode c P ''sa_encoder'' ''g_encoder'' (fst h) (snd h) action = Inr e
           \<and> repr_post c P e = Inr (sa, g)"
  using assms unfolding repr_fn_apply_decomp
  by (auto simp: and_then_def split: sum.splits prod.splits)

lemma repr_encode_goal:
  assumes "repr_encode c P sa_name g_name state goal action = Inr e"
  shows "mlp (hidden_layer_sizes c @ [repr_dim c]) False g_name P goal = Inr (snd e)"
  using assms unfolding repr_encode_def
  by (auto simp: and_then_def split: sum.splits)

lemma repr_post_goal:
  assumes "repr_post c P e = Inr (sa, g)"
  shows "if repr_norm c then normalize_rows (snd e) = Inr g else g = snd e"
  using assms unfolding repr_post_def
  by (auto simp: and_then_def split: sum.splits if_splits tensor.splits)

lemma repr_inputs_plain:
  "\<not> use_image_obs c \<Longrightarrow> repr_inputs L c obs None P s = Inr (h, s1)
     \<Longrightarrow> h = (slice_to (obs_dim c) obs, slice_from (obs_dim c) obs)"
  by (simp add: repr_inputs_def)

lemma hidden_reuse:
  assumes "repr_fn_apply L c P obs action None = Inr (sa, g, h)"
  shows "repr_fn_apply L c P obs action (Some h) = Inr (sa, g, h)"
proof -
  from repr_fn_apply_Inr[OF assms] obtain s1 e where
    e: "repr_encode c P ''sa_encoder'' ''g_encoder'' (fst h) (snd h) action = Inr e"
    and p: "repr_post c P e = Inr (sa, g)" by blast
  show ?thesis
    by (simp add: repr_fn_apply_decomp repr_inputs_Some e p)
qed

lemma l2_norm_nonneg: "0 \<le> l2_norm r"
  unfolding l2_norm_def by (rule real_sqrt_ge_zero) (auto intro!: sum_list_nonneg)

lemma sum_squares_div:
  "sum_list (map (\<lambda>v. v * v) (map (\<lambda>v. v / s) r))
     = sum_list (map (\<lambda>v. v * v) r) / (s * s :: real)"
  by (induction r) (simp_all add: add_divide_distrib)

lemma l2_norm_div: "0 < s \<Longrightarrow> l2_norm (map (\<lambda>v. v / s) r) = l2_norm r / s"
  unfolding l2_norm_def sum_squares_div by (simp add: real_sqrt_divide)

lemma l2_norm_normalized:
  assumes "l2_norm r \<noteq> 0"
  shows "l2_norm (map (\<lambda>v. v / l2_norm r) r) = 1"
proof -
  have "0 < l2_norm r" using assms l2_norm_nonneg[of r] by simp
  then show ?thesis by (simp add: l2_norm_div)
qed

lemma normalize_rows_ok:
  assumes "\<forall>r\<in>set (rows x). l2_norm r \<noteq> 0"
  shows "normalize_rows x = Inr (Arr2 (ncols x) (map (\<lambda>r. map (\<lambda>v. v / l2_norm r) r) (rows x)))"
  using assms by (auto simp: normalize_rows_def list_ex_iff)

lemma normalize_rows_unit:
  assumes "\<forall>r\<in>set (rows x). l2_norm r \<noteq> 0" "normalize_rows x = Inr y"
  shows "\<forall>r\<in>set (rows y). l2_norm r = 1"
  using assms(2) unfolding normalize_rows_ok[OF assms(1)]
  using assms(1) by (auto simp: l2_norm_normalized)

lemma div_scalar_norm:
  assumes "\<forall>r\<in>set (rows y). l2_norm r = 1"
  shows "\<forall>r\<in>set (rows (div_scalar y (exp t))). l2_norm r = exp (- t)"
  using assms by (auto simp: div_scalar_def l2_norm_div exp_minus inverse_eq_divide)

lemma ex_config_raw: "(ex_config True t tw)\<lparr>repr_norm := False\<rparr> = ex_config False t tw"
  by (simp add: ex_config_def)

lemma repr_fn_hk_Some_hidden:
  assumes "repr_fn_hk L c obs action (Some h) P s = Inr ((sa, g, h'), s')"
  shows "h' = h"
  using assms unfolding repr_fn_hk_decomp repr_inputs_Some
  by (auto simp: and_then_def split: sum.splits prod.splits)

lemma repr_fn_apply_hk:
  "repr_fn_hk L c obs action hidden P no_names = Inr (r, s) \<Longrightarrow>
     repr_fn_apply L c P obs action hidden = Inr r"
  by (simp add: repr_fn_apply_def hk_apply_def)

lemma critic_apply_Inr:
  assumes "critic_apply L c P obs action = Inr out"
  shows "\<exists>sa g h s1 m1.
           repr_fn_hk L c obs action None P no_names = Inr ((sa, g, h), s1)
         \<and> combine_repr sa g = Inr m1
         \<and> (if twin_q c then
              \<exists>sa2 g2 s2 m2 t.
                 repr_fn_hk L c obs action (Some h) P s1 = Inr ((sa2, g2, h), s2)
               \<and> combine_repr sa2 g2 = Inr m2
               \<and> stack_last m1 m2 = Inr t
               \<and> out = Twin t
            else out = Single m1)"
proof -
  from assms obtain sa g h s1 where
    r: "repr_fn_hk L c obs action None P no_names = Inr ((sa, g, h), s1)"
    unfolding critic_apply_def hk_apply_def critic_fn_hk_def
    by (cases "repr_fn_hk L c obs action None P no_names") auto
  from assms r obtain m1 where m: "combine_repr sa g = Inr m1"
    unfolding critic_apply_def hk_apply_def critic_fn_hk_def
    by (cases "combine_repr sa g") auto
  show ?thesis
  proof (cases "twin_q c")
    case False
    with assms r m have "out = Single m1"
      by (simp add: critic_apply_def hk_apply_def critic_fn_hk_def)
    with r m False show ?thesis by auto
  next
    case True
    from assms r m True obtain sa2 g2 h2 s2 where
      r2: "repr_fn_hk L c obs action (Some h) P s1 = Inr ((sa2, g2, h2), s2)"
      unfolding critic_apply_def hk_apply_def critic_fn_hk_def
      by (cases "repr_fn_hk L c obs action (Some h) P s1") auto
    have h2: "h2 = h" by (rule repr_fn_hk_Some_hidden[OF r2])
    from assms r m True r2 obtain m2 where m2: "combine_repr sa2 g2 = Inr m2"
      unfolding critic_apply_def hk_apply_def critic_fn_hk_def
      by (cases "combine_repr sa2 g2") auto
    from assms r m True r2 m2 obtain t where t: "stack_last m1 m2 = Inr t" "out = Twin t"
      unfolding critic_apply_def hk_apply_def critic_fn_hk_def
      by (cases "stack_last m1 m2") auto
    with r m True r2 m2 h2 show ?thesis by auto
  qed
qed

lemma no_names_fresh: "no_names ''sa_encoder'' = 0" "no_names ''g_encoder'' = 0"
  by (simp_all add: no_names_def)

lemma ex_repr_hk_first:
  "repr_fn_hk ex_lib (ex_config False t tw) ex_obs ex_action None (ex_params ls) no_names
     = Inr ((Arr2 1 [[2]], Arr2 1 [[2]], (Arr2 1 [[1]], Arr2 1 [[1]])),
            snd (snd (head_names no_names)))"
  by (simp only: repr_fn_hk_decomp ex_inputs and_then_simps prod.case fst_conv snd_conv
      head_names_fresh[OF no_names_fresh] ex_encode ex_post_raw)

lemma ex_repr_hk_second:
  "repr_fn_hk ex_lib (ex_config False t tw) ex_obs ex_action
       (Some (Arr2 1 [[1]], Arr2 1 [[1]])) (ex_params ls) (snd (snd (head_names no_names)))
     = Inr ((Arr2 1 [[4]], Arr2 1 [[2]], (Arr2 1 [[1]], Arr2 1 [[1]])),
            snd (snd (head_names (snd (snd (head_names no_names))))))"
  by (simp only: repr_fn_hk_decomp repr_inputs_Some and_then_simps prod.case fst_conv snd_conv
      head_names_second[OF no_names_fresh] ex_encode_1 ex_post_raw)

lemma ex_stack: "stack_last (Arr2 1 [[a]]) (Arr2 1 [[b]]) = Inr [[[a, b]]]"
  by (simp add: stack_last_def nrows_def)

lemma ex_critic_twin:
  "critic_apply ex_lib (ex_config False t True) (ex_params ls) ex_obs ex_action
     = Inr (Twin [[[2 * 2, 4 * 2]]])"
  by (simp only: critic_apply_def hk_apply_def critic_fn_hk_def ex_repr_hk_first
      ex_repr_hk_second and_then_simps prod.case ex_combine ex_flags if_True ex_stack)

lemma ex_critic_single:
  "critic_apply ex_lib (ex_config False t False) (ex_params ls) ex_obs ex_action
     = Inr (Single (Arr2 1 [[2 * 2]]))"
  by (simp only: critic_apply_def hk_apply_def critic_fn_hk_def ex_repr_hk_first
      and_then_simps prod.case ex_combine ex_flags if_False)


subsection \<open>Shapes\<close>


























subsection \<open>The two heads of the critic\<close>

lemma ex2_inputs:
  "repr_inputs ex_lib (ex_config n t tw) ex_obs2 None P s
     = Inr ((Arr2 1 [[1], [2]], Arr2 1 [[3], [5]]), s)"
  by (simp add: repr_inputs_def ex_config_def ex_obs2_def slice_to_def slice_from_def
      slice_index_def)

lemma ex2_concat: "concatenate (Arr2 1 [[1], [2]]) ex_action2 = Inr (Arr2 2 [[1, 1], [2, 2]])"
  by (simp add: concatenate_def ex_action2_def nrows_def)

lemma ex2_mlp_sa:
  "mlp (hidden_layer_sizes (ex_config n t tw) @ [repr_dim (ex_config n t tw)]) False
     ''sa_encoder'' (ex_params ls) (Arr2 2 [[1, 1], [2, 2]]) = Inr (Arr2 1 [[2], [4]])"
  by (simp add: ex_eval_defs)

lemma ex2_mlp_g:
  "mlp (hidden_layer_sizes (ex_config n t tw) @ [repr_dim (ex_config n t tw)]) False
     ''g_encoder'' (ex_params ls) (Arr2 1 [[3], [5]]) = Inr (Arr2 1 [[6], [10]])"
  by (simp add: ex_eval_defs)

lemma ex2_mlp_sa1:
  "mlp (hidden_layer_sizes (ex_config n t tw) @ [repr_dim (ex_config n t tw)]) False
     ''sa_encoder_1'' (ex_params ls) (Arr2 2 [[1, 1], [2, 2]]) = Inr (Arr2 1 [[4], [7]])"
  by (simp add: ex_eval_defs)

lemma ex2_mlp_g1:
  "mlp (hidden_layer_sizes (ex_config n t tw) @ [repr_dim (ex_config n t tw)]) False
     ''g_encoder_1'' (ex_params ls) (Arr2 1 [[3], [5]]) = Inr (Arr2 1 [[4], [6]])"
  by (simp add: ex_eval_defs)

lemma ex2_mlp_l:
  "mlp (hidden_layer_sizes (ex_config n t tw) @ [repr_dim (ex_config n t tw)]) False
     ''l_encoder'' (ex_params ls) (Arr2 1 [[1], [1]]) = Inr (Arr2 1 [[1], [1]])"
  by (simp add: ex_eval_defs)

lemma ex2_encode:
  "repr_encode (ex_config n t tw) (ex_params ls) ''sa_encoder'' ''g_encoder''
     (Arr2 1 [[1], [2]]) (Arr2 1 [[3], [5]]) ex_action2
     = Inr (Arr2 1 [[2], [4]], Arr2 1 [[6], [10]])"
  by (simp only: repr_encode_def ex2_concat and_then_simps ex2_mlp_sa ex2_mlp_g)

lemma ex2_encode_1:
  "repr_encode (ex_config n t tw) (ex_params ls) ''sa_encoder_1'' ''g_encoder_1''
     (Arr2 1 [[1], [2]]) (Arr2 1 [[3], [5]]) ex_action2
     = Inr (Arr2 1 [[4], [7]], Arr2 1 [[4], [6]])"
  by (simp only: repr_encode_def ex2_concat and_then_simps ex2_mlp_sa1 ex2_mlp_g1)

lemma ex2_repr_hk_first:
  "repr_fn_hk ex_lib (ex_config False t tw) ex_obs2 ex_action2 None (ex_params ls) no_names
     = Inr ((Arr2 1 [[2], [4]], Arr2 1 [[6], [10]], (Arr2 1 [[1], [2]], Arr2 1 [[3], [5]])),
            snd (snd (head_names no_names)))"
  by (simp only: repr_fn_hk_decomp ex2_inputs and_then_simps prod.case fst_conv snd_conv
      head_names_fresh[OF no_names_fresh] ex2_encode ex_post_raw)

lemma ex2_repr_hk_second:
  "repr_fn_hk ex_lib (ex_config False t tw) ex_obs2 ex_action2
       (Some (Arr2 1 [[1], [2]], Arr2 1 [[3], [5]])) (ex_params ls)
       (snd (snd (head_names no_names)))
     = Inr ((Arr2 1 [[4], [7]], Arr2 1 [[4], [6]], (Arr2 1 [[1], [2]], Arr2 1 [[3], [5]])),
            snd (snd (head_names (snd (snd (head_names no_names))))))"
  by (simp only: repr_fn_hk_decomp repr_inputs_Some and_then_simps prod.case fst_conv snd_conv
      head_names_second[OF no_names_fresh] ex2_encode_1 ex_post_raw)

lemma ex2_repr_raw:
  "repr_fn_apply ex_lib (ex_config False t tw) (ex_params ls) ex_obs2 ex_action2 None
     = Inr (Arr2 1 [[2], [4]], Arr2 1 [[6], [10]], (Arr2 1 [[1], [2]], Arr2 1 [[3], [5]]))"
  using ex2_repr_hk_first by (rule repr_fn_apply_hk)

lemma ex2_combine_first:
  "combine_repr (Arr2 1 [[2], [4]]) (Arr2 1 [[6], [10]]) = Inr (Arr2 2 [[12, 20], [24, 40]])"
  by (simp add: combine_repr_def broadcast_row_def dot_def nrows_def)

lemma ex2_combine_second:
  "combine_repr (Arr2 1 [[4], [7]]) (Arr2 1 [[4], [6]]) = Inr (Arr2 2 [[16, 24], [28, 42]])"
  by (simp add: combine_repr_def broadcast_row_def dot_def nrows_def)

lemma ex2_stack:
  "stack_last (Arr2 2 [[12, 20], [24, 40]]) (Arr2 2 [[16, 24], [28, 42]])
     = Inr [[[12, 16], [20, 24]], [[24, 28], [40, 42]]]"
  by (simp add: stack_last_def nrows_def)


lemma ex2_critic_twin:
  "critic_apply ex_lib (ex_config False t True) (ex_params ls) ex_obs2 ex_action2
     = Inr (Twin [[[12, 16], [20, 24]], [[24, 28], [40, 42]]])"
  by (simp only: critic_apply_def hk_apply_def critic_fn_hk_def ex2_repr_hk_first
      ex2_repr_hk_second and_then_simps prod.case ex2_combine_first ex2_combine_second
      ex_flags if_True ex2_stack)

lemma ex2_combine_language:
  "combine_repr (Arr2 1 [[6], [10]]) (Arr2 1 [[1], [1]]) = Inr (Arr2 2 [[6, 6], [10, 10]])"
  by (simp add: combine_repr_def broadcast_row_def dot_def nrows_def)

lemma ex2_language:
  "language_apply (ex_config n t tw) (ex_params ls) (Arr2 1 [[3], [5]]) (Arr2 1 [[1], [1]])
     = Inr (Arr2 1 [[6], [10]], Arr2 1 [[1], [1]], Arr2 2 [[6, 6], [10, 10]])"
  by (simp only: language_apply_decomp ex2_mlp_g ex2_mlp_l and_then_simps ex2_combine_language)

lemma head_names_g:
  "fst (snd (head_names s)) =
     (if s ''g_encoder'' = 0 then ''g_encoder'' else ''g_encoder_'' @ show_nat (s ''g_encoder''))"
  by (simp add: head_names_def unique_name_def)

lemma head_names_counts:
  "snd (snd (head_names s)) ''sa_encoder'' = Suc (s ''sa_encoder'')"
  "snd (snd (head_names s)) ''g_encoder'' = Suc (s ''g_encoder'')"
  by (simp_all add: head_names_def unique_name_def)

lemma repr_fn_hk_stages:
  assumes "repr_fn_hk L c obs action hidden P s0 = Inr ((sa, g, h), s')"
  shows "\<exists>s1 e. repr_inputs L c obs hidden P s0 = Inr (h, s1)
           \<and> repr_encode c P (fst (head_names s1)) (fst (snd (head_names s1)))
                (fst h) (snd h) action = Inr e
           \<and> repr_post c P e = Inr (sa, g)
           \<and> s' = snd (snd (head_names s1))"
  using assms unfolding repr_fn_hk_decomp
  by (auto simp: and_then_def split: sum.splits prod.splits)

lemma repr_fn_hk_counts:
  assumes "repr_fn_hk L c obs action hidden P s0 = Inr ((sa, g, h), s')"
  shows "s' ''sa_encoder'' = Suc (s0 ''sa_encoder'')" "s' ''g_encoder'' = Suc (s0 ''g_encoder'')"
proof -
  from repr_fn_hk_stages[OF assms] obtain s1 where
    i: "repr_inputs L c obs hidden P s0 = Inr (h, s1)" and s': "s' = snd (snd (head_names s1))"
    by blast
  show "s' ''sa_encoder'' = Suc (s0 ''sa_encoder'')" "s' ''g_encoder'' = Suc (s0 ''g_encoder'')"
    using repr_inputs_names[OF i] by (simp_all add: s' head_names_counts)
qed

lemma repr_fn_hk_goal:
  assumes "repr_fn_hk L c obs action hidden P s0 = Inr ((sa, g, h), s')"
  shows "\<exists>g0. mlp (hidden_layer_sizes c @ [repr_dim c]) False
                (if s0 ''g_encoder'' = 0 then ''g_encoder''
                 else ''g_encoder_'' @ show_nat (s0 ''g_encoder'')) P (snd h) = Inr g0
              \<and> (if repr_norm c then normalize_rows g0 = Inr g else g = g0)"
proof -
  from repr_fn_hk_stages[OF assms] obtain s1 e where
    i: "repr_inputs L c obs hidden P s0 = Inr (h, s1)"
    and e: "repr_encode c P (fst (head_names s1)) (fst (snd (head_names s1)))
                (fst h) (snd h) action = Inr e"
    and p: "repr_post c P e = Inr (sa, g)" by blast
  have "mlp (hidden_layer_sizes c @ [repr_dim c]) False (fst (snd (head_names s1))) P (snd h)
          = Inr (snd e)"
    by (rule repr_encode_goal[OF e])
  then have "mlp (hidden_layer_sizes c @ [repr_dim c]) False
                (if s0 ''g_encoder'' = 0 then ''g_encoder''
                 else ''g_encoder_'' @ show_nat (s0 ''g_encoder'')) P (snd h) = Inr (snd e)"
    unfolding head_names_g repr_inputs_names(2)[OF i] .
  with repr_post_goal[OF p] show ?thesis by blast
qed

lemma language_apply_goal:
  assumes "language_apply c P goal language = Inr (g', l, outer)"
  shows "mlp (hidden_layer_sizes c @ [repr_dim c]) False ''g_encoder'' P goal = Inr g'"
  using assms unfolding language_apply_decomp
  by (auto simp: and_then_def split: sum.splits)


















subsection \<open>float32 arithmetic on integers\<close>

lemma pow2_powr: "pow2 k = 2 powr real_of_int k"
  by (auto simp: pow2_def powr_real_of_int' power_int_def power_inverse[symmetric]
      inverse_eq_divide power_divide)


lemma pow2_add: "pow2 (j + k) = pow2 j * pow2 k"
  by (simp add: pow2_powr powr_add)



























section \<open>Evaluation-mode sampling\<close>

text \<open>
  C7. Asking \<open>apply_policy_and_sample\<close> for the evaluation sampler of a bundle whose
  \<open>sample_eval\<close> is unset raises the ValueError "sample function is not provided": the
  call returns no function at all, so nothing falls back to \<open>sample\<close>.
\<close>

theorem eval_mode_without_sample_eval_raises:
  assumes "sample_eval networks = None"
  shows "apply_policy_and_sample networks True
           = Inl (ValueError ''sample function is not provided'')"
  using assms by (simp add: apply_policy_and_sample_def)

theorem eval_mode_without_sample_eval_raises_witness:
  "sample_eval ((make_networks ex_lib (ex_config False True False))\<lparr>sample_eval := None\<rparr>) = None
   \<and> apply_policy_and_sample
        ((make_networks ex_lib (ex_config False True False))\<lparr>sample_eval := None\<rparr>) True
       = Inl (ValueError ''sample function is not provided'')"
  using eval_mode_without_sample_eval_raises
          [of "(make_networks ex_lib (ex_config False True False))\<lparr>sample_eval := None\<rparr>"]
  by simp

text \<open>
  C9. A bundle built by \<open>make_networks\<close> has its \<open>sample_eval\<close> set, so
  \<open>apply_policy_and_sample\<close> in evaluation mode raises nothing: it returns the function
  that applies the policy and takes the mode of the distribution.
\<close>

theorem make_networks_provides_sample_eval:
  "sample_eval (make_networks L c) \<noteq> None
   \<and> apply_policy_and_sample (make_networks L c) True
       = Inr (\<lambda>params key obs. and_then (policy_apply L c params obs) (\<lambda>d. Inr (d_mode d)))"
  by (simp add: apply_policy_and_sample_def make_networks_def)

text \<open>
  C10. The evaluation sampler of a bundle built by \<open>make_networks\<close> returns the mode of
  the distribution whatever the key, and so does the action function built on it:
  two keys give the same outcome.
\<close>

theorem sample_eval_ignores_key:
  "\<exists>f F. sample_eval (make_networks L c) = Some f
     \<and> (\<forall>d key. f d key = d_mode d)
     \<and> (\<forall>d key1 key2. f d key1 = f d key2)
     \<and> apply_policy_and_sample (make_networks L c) True = Inr F
     \<and> (\<forall>params obs key1 key2. F params key1 obs = F params key2 obs)"
  by (simp add: apply_policy_and_sample_def make_networks_def)

section \<open>Observation unflattening\<close>



section \<open>The representation function\<close>

text \<open>
  C5. With temperature scaling enabled and the learned \<open>repr_log_scale\<close> at its initial
  value zero, the representation function returns what it returns with temperature
  scaling switched off; with normalisation on, that is the encoders' output with every
  row divided by its norm, unscaled.
\<close>

theorem zero_log_scale_is_unscaled:
  assumes "repr_norm_temp c" and "get_parameter P ''~'' ''repr_log_scale'' = Inr (T0 0)"
  shows "repr_fn_apply L c P obs action hidden
           = repr_fn_apply L (c\<lparr>repr_norm_temp := False\<rparr>) P obs action hidden
       \<and> (repr_norm c \<longrightarrow>
            repr_fn_apply L c P obs action hidden
              = and_then (repr_fn_apply L (c\<lparr>repr_norm := False\<rparr>) P obs action hidden)
                  (\<lambda>(sa_repr, g_repr, h).
                     and_then (normalize_rows sa_repr) (\<lambda>sa.
                       and_then (normalize_rows g_repr) (\<lambda>g. Inr (sa, g, h)))))"
proof (intro conjI impI)
  show "repr_fn_apply L c P obs action hidden
           = repr_fn_apply L (c\<lparr>repr_norm_temp := False\<rparr>) P obs action hidden"
    by (simp add: repr_fn_apply_decomp repr_post_zero_scale[OF assms])
  assume n: "repr_norm c"
  show "repr_fn_apply L c P obs action hidden
              = and_then (repr_fn_apply L (c\<lparr>repr_norm := False\<rparr>) P obs action hidden)
                  (\<lambda>(sa_repr, g_repr, h).
                     and_then (normalize_rows sa_repr) (\<lambda>sa.
                       and_then (normalize_rows g_repr) (\<lambda>g. Inr (sa, g, h))))"
    by (simp add: repr_fn_apply_decomp repr_post_zero_scale[OF assms] repr_post_no_temp n
        repr_post_raw and_then_assoc case_prod_unfold)
qed

theorem zero_log_scale_is_unscaled_witness:
  "repr_norm_temp (ex_config True True False)
   \<and> get_parameter (ex_params 0) ''~'' ''repr_log_scale'' = Inr (T0 0)
   \<and> repr_fn_apply ex_lib (ex_config True True False) (ex_params 0) ex_obs ex_action None
       = Inr (Arr2 1 [[1]], Arr2 1 [[1]], (Arr2 1 [[1]], Arr2 1 [[1]]))
   \<and> repr_fn_apply ex_lib ((ex_config True True False)\<lparr>repr_norm_temp := False\<rparr>) (ex_params 0)
        ex_obs ex_action None
       = Inr (Arr2 1 [[1]], Arr2 1 [[1]], (Arr2 1 [[1]], Arr2 1 [[1]]))"
proof -
  have a: "repr_norm_temp (ex_config True True False)" by (simp add: ex_flags)
  have b: "get_parameter (ex_params 0) ''~'' ''repr_log_scale'' = Inr (T0 0)"
    by (rule ex_get_scale)
  have c: "repr_fn_apply ex_lib (ex_config True True False) (ex_params 0) ex_obs ex_action None
       = Inr (Arr2 1 [[1]], Arr2 1 [[1]], (Arr2 1 [[1]], Arr2 1 [[1]]))"
    using ex_repr_temp[of False 0] by simp
  from zero_log_scale_is_unscaled[OF a b, of ex_lib ex_obs ex_action None] a b c
  show ?thesis by simp
qed

text \<open>
  C4. A call of the representation function with the \<open>hidden\<close> pair that a call without
  it returned gives the same embeddings and the same pair. In the twin critic the second
  call of \<open>_repr_fn\<close> is given exactly the pair the first call returned (and returns it
  again); its encoders are the next modules of the frame, and the result stacks the two
  heads' matrices.
\<close>

theorem hidden_pass_through:
  "(repr_fn_apply L c P obs action None = Inr (sa_repr, g_repr, hidden) \<longrightarrow>
      repr_fn_apply L c P obs action (Some hidden) = Inr (sa_repr, g_repr, hidden))
   \<and> (twin_q c \<and> critic_apply L c P obs action = Inr out \<longrightarrow>
        (\<exists>sa g h s1 m1 sa2 g2 s2 m2 t.
            repr_fn_hk L c obs action None P no_names = Inr ((sa, g, h), s1)
          \<and> repr_fn_hk L c obs action (Some h) P s1 = Inr ((sa2, g2, h), s2)
          \<and> combine_repr sa g = Inr m1 \<and> combine_repr sa2 g2 = Inr m2
          \<and> stack_last m1 m2 = Inr t \<and> out = Twin t))"
proof (intro conjI impI)
  assume "repr_fn_apply L c P obs action None = Inr (sa_repr, g_repr, hidden)"
  then show "repr_fn_apply L c P obs action (Some hidden) = Inr (sa_repr, g_repr, hidden)"
    by (rule hidden_reuse)
next
  assume a: "twin_q c \<and> critic_apply L c P obs action = Inr out"
  from critic_apply_Inr[of L c P obs action out] a
  show "\<exists>sa g h s1 m1 sa2 g2 s2 m2 t.
            repr_fn_hk L c obs action None P no_names = Inr ((sa, g, h), s1)
          \<and> repr_fn_hk L c obs action (Some h) P s1 = Inr ((sa2, g2, h), s2)
          \<and> combine_repr sa g = Inr m1 \<and> combine_repr sa2 g2 = Inr m2
          \<and> stack_last m1 m2 = Inr t \<and> out = Twin t"
    by simp blast
qed

theorem hidden_pass_through_witness:
  "repr_fn_apply ex_lib (ex_config False True True) (ex_params 0) ex_obs ex_action None
     = Inr (Arr2 1 [[2]], Arr2 1 [[2]], (Arr2 1 [[1]], Arr2 1 [[1]]))
   \<and> repr_fn_apply ex_lib (ex_config False True True) (ex_params 0) ex_obs ex_action
        (Some (Arr2 1 [[1]], Arr2 1 [[1]]))
     = Inr (Arr2 1 [[2]], Arr2 1 [[2]], (Arr2 1 [[1]], Arr2 1 [[1]]))
   \<and> twin_q (ex_config False True True)
   \<and> critic_apply ex_lib (ex_config False True True) (ex_params 0) ex_obs ex_action
       = Inr (Twin [[[4, 8]]])"
proof -
  have a: "repr_fn_apply ex_lib (ex_config False True True) (ex_params 0) ex_obs ex_action None
     = Inr (Arr2 1 [[2]], Arr2 1 [[2]], (Arr2 1 [[1]], Arr2 1 [[1]]))"
    by (rule ex_repr_raw)
  have b: "critic_apply ex_lib (ex_config False True True) (ex_params 0) ex_obs ex_action
       = Inr (Twin [[[4, 8]]])"
    using ex_critic_twin[of True 0] by simp
  from hidden_pass_through[of ex_lib "ex_config False True True" "ex_params 0" ex_obs ex_action
      "Arr2 1 [[2]]" "Arr2 1 [[2]]" "(Arr2 1 [[1]], Arr2 1 [[1]])" "Twin [[[4, 8]]]"] a b
  show ?thesis by (simp add: ex_flags)
qed

text \<open>
  C1, as amended. The representation function, applied on its own or as the first (or
  only) head of the critic, and the language network apply the goal encoder \<open>g_encoder\<close> with
  the same parameters to the goal they are given: with \<open>repr_norm\<close> off their goal
  embeddings are equal, and equal to \<open>goal_fn\<close>'s; with \<open>repr_norm\<close> on the representation
  function returns the language network's embedding with every row divided by its norm.
  The second head of the twin critic applies another module, \<open>g_encoder_1\<close>, with parameters
  of its own, and what it returns is that module's output (normalised when \<open>repr_norm\<close> is
  on), not the shared encoder's.
\<close>

theorem shared_goal_encoder:
  "(repr_fn_apply L c P obs action hidden = Inr (sa_repr, g_repr, (state, goal))
      \<and> language_apply c P goal language = Inr (g_repr', l_repr, outer) \<longrightarrow>
        goal_fn_apply c P goal = Inr g_repr'
      \<and> (if repr_norm c then normalize_rows g_repr' = Inr g_repr else g_repr = g_repr')
      \<and> (hidden = None \<and> \<not> use_image_obs c \<longrightarrow> goal = slice_from (obs_dim c) obs))
   \<and> (critic_apply L c P obs action = Inr out \<longrightarrow>
        (\<exists>sa g h s1.
            repr_fn_hk L c obs action None P no_names = Inr ((sa, g, h), s1)
          \<and> (\<forall>lang g' l m. language_apply c P (snd h) lang = Inr (g', l, m) \<longrightarrow>
                (if repr_norm c then normalize_rows g' = Inr g else g = g'))
          \<and> (twin_q c \<longrightarrow>
                (\<exists>sa2 g2 s2 g1.
                    repr_fn_hk L c obs action (Some h) P s1 = Inr ((sa2, g2, h), s2)
                  \<and> mlp (hidden_layer_sizes c @ [repr_dim c]) False ''g_encoder_1'' P (snd h)
                      = Inr g1
                  \<and> (if repr_norm c then normalize_rows g1 = Inr g2 else g2 = g1)))))"
proof (intro conjI impI)
  assume a: "repr_fn_apply L c P obs action hidden = Inr (sa_repr, g_repr, (state, goal))
      \<and> language_apply c P goal language = Inr (g_repr', l_repr, outer)"
  from repr_fn_apply_Inr[OF a[THEN conjunct1]] obtain s1 e where
    i: "repr_inputs L c obs hidden P no_names = Inr ((state, goal), s1)"
    and e: "repr_encode c P ''sa_encoder'' ''g_encoder'' state goal action = Inr e"
    and p: "repr_post c P e = Inr (sa_repr, g_repr)" by auto
  have l: "mlp (hidden_layer_sizes c @ [repr_dim c]) False ''g_encoder'' P goal = Inr g_repr'"
    by (rule language_apply_goal[OF a[THEN conjunct2]])
  with repr_encode_goal[OF e] have "snd e = g_repr'" by simp
  with repr_post_goal[OF p]
  show "if repr_norm c then normalize_rows g_repr' = Inr g_repr else g_repr = g_repr'"
    by (auto split: if_splits)
  show "goal_fn_apply c P goal = Inr g_repr'"
    by (simp add: goal_fn_apply_decomp l)
  assume "hidden = None \<and> \<not> use_image_obs c"
  then show "goal = slice_from (obs_dim c) obs"
    using repr_inputs_plain[of c L obs P no_names "(state, goal)" s1] i by simp
next
  assume "critic_apply L c P obs action = Inr out"
  from critic_apply_Inr[OF this] obtain sa g h s1 m1 where
    r: "repr_fn_hk L c obs action None P no_names = Inr ((sa, g, h), s1)"
    and rest: "if twin_q c then
              \<exists>sa2 g2 s2 m2 t.
                 repr_fn_hk L c obs action (Some h) P s1 = Inr ((sa2, g2, h), s2)
               \<and> combine_repr sa2 g2 = Inr m2
               \<and> stack_last m1 m2 = Inr t
               \<and> out = Twin t
            else out = Single m1" by blast
  from repr_fn_hk_goal[OF r] obtain g0 where
    g0: "mlp (hidden_layer_sizes c @ [repr_dim c]) False ''g_encoder'' P (snd h) = Inr g0"
    and n0: "if repr_norm c then normalize_rows g0 = Inr g else g = g0"
    by (auto simp: no_names_def)
  have first: "\<forall>lang g' l m. language_apply c P (snd h) lang = Inr (g', l, m) \<longrightarrow>
                (if repr_norm c then normalize_rows g' = Inr g else g = g')"
  proof (intro allI impI)
    fix lang g' l m
    assume "language_apply c P (snd h) lang = Inr (g', l, m)"
    from language_apply_goal[OF this] g0 have "g' = g0" by simp
    with n0 show "if repr_norm c then normalize_rows g' = Inr g else g = g'" by simp
  qed
  have second: "\<exists>sa2 g2 s2 g1.
                    repr_fn_hk L c obs action (Some h) P s1 = Inr ((sa2, g2, h), s2)
                  \<and> mlp (hidden_layer_sizes c @ [repr_dim c]) False ''g_encoder_1'' P (snd h)
                      = Inr g1
                  \<and> (if repr_norm c then normalize_rows g1 = Inr g2 else g2 = g1)"
    if "twin_q c"
  proof -
    from rest that obtain sa2 g2 s2 where
      r2: "repr_fn_hk L c obs action (Some h) P s1 = Inr ((sa2, g2, h), s2)" by auto
    have "s1 ''g_encoder'' = Suc 0"
      using repr_fn_hk_counts(2)[OF r] by (simp add: no_names_def)
    with repr_fn_hk_goal[OF r2] r2 show ?thesis
      by (auto simp: show_nat_1)
  qed
  from r first second
  show "\<exists>sa g h s1.
            repr_fn_hk L c obs action None P no_names = Inr ((sa, g, h), s1)
          \<and> (\<forall>lang g' l m. language_apply c P (snd h) lang = Inr (g', l, m) \<longrightarrow>
                (if repr_norm c then normalize_rows g' = Inr g else g = g'))
          \<and> (twin_q c \<longrightarrow>
                (\<exists>sa2 g2 s2 g1.
                    repr_fn_hk L c obs action (Some h) P s1 = Inr ((sa2, g2, h), s2)
                  \<and> mlp (hidden_layer_sizes c @ [repr_dim c]) False ''g_encoder_1'' P (snd h)
                      = Inr g1
                  \<and> (if repr_norm c then normalize_rows g1 = Inr g2 else g2 = g1)))"
    by blast
qed

theorem shared_goal_encoder_witness:
  "repr_fn_apply ex_lib (ex_config False True True) (ex_params 0) ex_obs2 ex_action2 None
     = Inr (Arr2 1 [[2], [4]], Arr2 1 [[6], [10]], (Arr2 1 [[1], [2]], Arr2 1 [[3], [5]]))
   \<and> language_apply (ex_config False True True) (ex_params 0) (Arr2 1 [[3], [5]])
        (Arr2 1 [[1], [1]])
     = Inr (Arr2 1 [[6], [10]], Arr2 1 [[1], [1]], Arr2 2 [[6, 6], [10, 10]])
   \<and> goal_fn_apply (ex_config False True True) (ex_params 0) (Arr2 1 [[3], [5]])
     = Inr (Arr2 1 [[6], [10]])
   \<and> Arr2 1 [[3], [5]] = slice_from (obs_dim (ex_config False True True)) ex_obs2
   \<and> critic_apply ex_lib (ex_config False True True) (ex_params 0) ex_obs2 ex_action2
     = Inr (Twin [[[12, 16], [20, 24]], [[24, 28], [40, 42]]])
   \<and> mlp (hidden_layer_sizes (ex_config False True True) @ [repr_dim (ex_config False True True)])
        False ''g_encoder_1'' (ex_params 0) (Arr2 1 [[3], [5]])
     = Inr (Arr2 1 [[4], [6]])"
proof -
  have a: "repr_fn_apply ex_lib (ex_config False True True) (ex_params 0) ex_obs2 ex_action2 None
     = Inr (Arr2 1 [[2], [4]], Arr2 1 [[6], [10]], (Arr2 1 [[1], [2]], Arr2 1 [[3], [5]]))"
    by (rule ex2_repr_raw)
  have b: "language_apply (ex_config False True True) (ex_params 0) (Arr2 1 [[3], [5]])
        (Arr2 1 [[1], [1]])
     = Inr (Arr2 1 [[6], [10]], Arr2 1 [[1], [1]], Arr2 2 [[6, 6], [10, 10]])"
    by (rule ex2_language)
  have c: "critic_apply ex_lib (ex_config False True True) (ex_params 0) ex_obs2 ex_action2
     = Inr (Twin [[[12, 16], [20, 24]], [[24, 28], [40, 42]]])"
    by (rule ex2_critic_twin)
  note t = shared_goal_encoder[of ex_lib "ex_config False True True" "ex_params 0" ex_obs2
      ex_action2 None "Arr2 1 [[2], [4]]" "Arr2 1 [[6], [10]]" "Arr2 1 [[1], [2]]"
      "Arr2 1 [[3], [5]]" "Arr2 1 [[1], [1]]" "Arr2 1 [[6], [10]]" "Arr2 1 [[1], [1]]"
      "Arr2 2 [[6, 6], [10, 10]]" "Twin [[[12, 16], [20, 24]], [[24, 28], [40, 42]]]"]
  note t1 = t[THEN conjunct1, rule_format, OF conjI[OF a b]]
  have d: "goal_fn_apply (ex_config False True True) (ex_params 0) (Arr2 1 [[3], [5]])
     = Inr (Arr2 1 [[6], [10]])"
    by (rule t1[THEN conjunct1])
  have e: "Arr2 1 [[3], [5]] = slice_from (obs_dim (ex_config False True True)) ex_obs2"
    using t1[THEN conjunct2, THEN conjunct2] by (simp add: ex_flags)
  from t[THEN conjunct2, rule_format, OF c] obtain sa g h s1 g1 where
    r: "repr_fn_hk ex_lib (ex_config False True True) ex_obs2 ex_action2 None (ex_params 0)
          no_names = Inr ((sa, g, h), s1)"
    and g1: "mlp (hidden_layer_sizes (ex_config False True True)
                    @ [repr_dim (ex_config False True True)])
        False ''g_encoder_1'' (ex_params 0) (snd h) = Inr g1"
    by (auto simp: ex_flags)
  have "snd h = Arr2 1 [[3], [5]]"
    using r unfolding ex2_repr_hk_first by auto
  with g1 have f: "mlp (hidden_layer_sizes (ex_config False True True)
                    @ [repr_dim (ex_config False True True)])
        False ''g_encoder_1'' (ex_params 0) (Arr2 1 [[3], [5]]) = Inr (Arr2 1 [[4], [6]])"
    by (simp only: ex2_mlp_g1)
  from a b c d e f show ?thesis by blast
qed

text \<open>
  C1 as stated fails twice. With \<open>repr_norm\<close> on: on the goal \<open>[1]\<close> the representation
  function returns the goal embedding \<open>[1]\<close>, the language network \<open>[2]\<close>. With \<open>repr_norm\<close>
  off and \<open>twin_q\<close> on: on the goals \<open>[3]\<close> and \<open>[5]\<close> the critic's second head returns the
  goal embeddings \<open>[4]\<close> and \<open>[6]\<close>, the language network \<open>[6]\<close> and \<open>[10]\<close>.
\<close>

theorem shared_goal_encoder_counterexample:
  "repr_fn_apply ex_lib (ex_config True False False) (ex_params 0) ex_obs ex_action None
     = Inr (Arr2 1 [[1]], Arr2 1 [[1]], (Arr2 1 [[1]], Arr2 1 [[1]]))
   \<and> slice_from (obs_dim (ex_config True False False)) ex_obs = Arr2 1 [[1]]
   \<and> language_apply (ex_config True False False) (ex_params 0) (Arr2 1 [[1]]) (Arr2 1 [[3]])
     = Inr (Arr2 1 [[2]], Arr2 1 [[3]], Arr2 1 [[6]])
   \<and> Arr2 1 [[1]] \<noteq> Arr2 1 [[2]]
   \<and> \<not> repr_norm (ex_config False True True)
   \<and> critic_apply ex_lib (ex_config False True True) (ex_params 0) ex_obs2 ex_action2
     = Inr (Twin [[[12, 16], [20, 24]], [[24, 28], [40, 42]]])
   \<and> repr_fn_hk ex_lib (ex_config False True True) ex_obs2 ex_action2
        (Some (Arr2 1 [[1], [2]], Arr2 1 [[3], [5]])) (ex_params 0)
        (snd (snd (head_names no_names)))
     = Inr ((Arr2 1 [[4], [7]], Arr2 1 [[4], [6]], (Arr2 1 [[1], [2]], Arr2 1 [[3], [5]])),
            snd (snd (head_names (snd (snd (head_names no_names))))))
   \<and> language_apply (ex_config False True True) (ex_params 0) (Arr2 1 [[3], [5]])
        (Arr2 1 [[1], [1]])
     = Inr (Arr2 1 [[6], [10]], Arr2 1 [[1], [1]], Arr2 2 [[6, 6], [10, 10]])
   \<and> Arr2 1 [[4], [6]] \<noteq> Arr2 1 [[6], [10]]"
proof -
  have "language_apply (ex_config True False False) (ex_params 0) (Arr2 1 [[1]]) (Arr2 1 [[3]])
     = Inr (Arr2 1 [[2]], Arr2 1 [[3]], Arr2 1 [[6]])"
    using ex_language[of True False False 0] by simp
  moreover have "slice_from (obs_dim (ex_config True False False)) ex_obs = Arr2 1 [[1]]"
    by (simp add: ex_eval_defs)
  moreover note ex_repr_norm[of False 0] ex2_critic_twin[of True 0]
    ex2_repr_hk_second[of True True 0] ex2_language[of False True True 0]
  moreover have "Arr2 1 [[1]] \<noteq> Arr2 1 [[2::real]]" "Arr2 1 [[4], [6]] \<noteq> Arr2 1 [[6::real], [10]]"
    "\<not> repr_norm (ex_config False True True)"
    by (simp_all add: ex_flags)
  ultimately show ?thesis by blast
qed

section \<open>The critic\<close>



section \<open>Similarity combination\<close>




end
